theory Spec2Isabelle
  imports Main
begin

section \<open>Data model (models/Subscription.ts, models/User.ts)\<close>

text \<open>
  The TypeScript interfaces \<open>ISubscription\<close> and \<open>IUser\<close> become records, their string
  enums become datatypes. A JavaScript \<open>number\<close> that holds a limit or a counter is an
  \<open>int\<close> (the code only compares such numbers, adds 1 to them and stores the constants
  of the plan table). Object ids are natural numbers, provider ids are strings.
  The \<open>createdAt\<close>/\<open>updatedAt\<close> stamps that the persistence library maintains by itself are
  not part of the model, and a database read or write is taken to succeed.
\<close>

type_synonym oid = nat

datatype plan = Free | Pro | Enterprise

datatype sub_status = Active | Cancelled | Expired | Pending | Trial

datatype billing_cycle = Monthly | Yearly

datatype payment_provider = Stripe | Razorpay | Manual

datatype role = RFree | RPro | RAdmin

datatype user_sub_status = UActive | UCancelled | UExpired | UNone

datatype renewal_status = Success | Failed

text \<open>A \<open>Date\<close>, read through \<open>getFullYear()\<close>, \<open>getMonth()\<close> (0 to 11) and \<open>getDate()\<close>.\<close>

record jsdate =
  getFullYear :: int
  getMonth :: int
  getDate :: int

subsection \<open>The feature shapes of \<open>ISubscription.features\<close>\<close>

text \<open>
  Every object-shaped feature has \<open>enabled\<close>; the counted ones add \<open>used\<close> and either
  \<open>monthlyLimit\<close> or \<open>weeklyLimit\<close>; \<open>roadmaps\<close> has \<open>maxActive\<close> and \<open>apiAccess\<close> has
  \<open>rateLimit\<close>. Record extension keeps the field names of the source.
\<close>

record gated =
  enabled :: bool

record counted = gated +
  used :: int

record monthly_feature = counted +
  monthlyLimit :: int

record weekly_feature = counted +
  weeklyLimit :: int

record capacity_feature = gated +
  maxActive :: int

record rate_feature = gated +
  rateLimit :: int

record features =
  resumeAnalysis :: monthly_feature
  interviews :: monthly_feature
  jobMatches :: weekly_feature
  roadmaps :: capacity_feature
  linkedInReview :: monthly_feature
  apiAccess :: rate_feature
  prioritySupport :: bool
  customBranding :: bool

record payment_details =
  stripeCustomerId :: "string option"
  stripeSubscriptionId :: "string option"
  stripePriceId :: "string option"
  razorpaySubscriptionId :: "string option"
  razorpayCustomerId :: "string option"

record cancellation_info =
  cancelledAt :: jsdate
  reason :: "string option"
  feedback :: "string option"

record renewal =
  renewal_date :: jsdate
  amount :: int
  renewal_status :: renewal_status
  transactionId :: "string option"

record subscription =
  doc_id :: oid
  userId :: oid
  plan :: plan
  status :: sub_status
  billingCycle :: billing_cycle
  price :: int
  currency :: string
  startDate :: jsdate
  endDate :: jsdate
  trialEndsAt :: "jsdate option"
  paymentProvider :: payment_provider
  paymentDetails :: payment_details
  features :: features
  cancellation :: "cancellation_info option"
  renewals :: "renewal list"

text \<open>The part of \<open>IUser\<close> that the subscription code reads or writes.\<close>

record user_subscription =
  us_status :: user_sub_status
  us_plan :: plan
  us_startDate :: "jsdate option"
  us_endDate :: "jsdate option"
  us_stripeCustomerId :: "string option"
  us_stripeSubscriptionId :: "string option"

record usage =
  resumeAnalysisCount :: int
  interviewSessionsCount :: int
  lastResetDate :: jsdate

record user =
  role :: role
  subscription :: user_subscription
  usage :: usage

section \<open>The plan table and the pre-save hook\<close>

text \<open>The constant \<open>planFeatures\<close> declared inside \<open>SubscriptionSchema.pre('save')\<close>.\<close>

fun planFeatures :: "plan \<Rightarrow> features" where
  "planFeatures Free =
     \<lparr> resumeAnalysis = \<lparr> enabled = True, used = 0, monthlyLimit = 3 \<rparr>,
       interviews = \<lparr> enabled = True, used = 0, monthlyLimit = 1 \<rparr>,
       jobMatches = \<lparr> enabled = False, used = 0, weeklyLimit = 0 \<rparr>,
       roadmaps = \<lparr> enabled = True, maxActive = 1 \<rparr>,
       linkedInReview = \<lparr> enabled = True, used = 0, monthlyLimit = 1 \<rparr>,
       apiAccess = \<lparr> enabled = False, rateLimit = 100 \<rparr>,
       prioritySupport = False,
       customBranding = False \<rparr>"
| "planFeatures Pro =
     \<lparr> resumeAnalysis = \<lparr> enabled = True, used = 0, monthlyLimit = - 1 \<rparr>,
       interviews = \<lparr> enabled = True, used = 0, monthlyLimit = - 1 \<rparr>,
       jobMatches = \<lparr> enabled = True, used = 0, weeklyLimit = 10 \<rparr>,
       roadmaps = \<lparr> enabled = True, maxActive = 3 \<rparr>,
       linkedInReview = \<lparr> enabled = True, used = 0, monthlyLimit = - 1 \<rparr>,
       apiAccess = \<lparr> enabled = True, rateLimit = 1000 \<rparr>,
       prioritySupport = True,
       customBranding = False \<rparr>"
| "planFeatures Enterprise =
     \<lparr> resumeAnalysis = \<lparr> enabled = True, used = 0, monthlyLimit = - 1 \<rparr>,
       interviews = \<lparr> enabled = True, used = 0, monthlyLimit = - 1 \<rparr>,
       jobMatches = \<lparr> enabled = True, used = 0, weeklyLimit = - 1 \<rparr>,
       roadmaps = \<lparr> enabled = True, maxActive = 10 \<rparr>,
       linkedInReview = \<lparr> enabled = True, used = 0, monthlyLimit = - 1 \<rparr>,
       apiAccess = \<lparr> enabled = True, rateLimit = 10000 \<rparr>,
       prioritySupport = True,
       customBranding = True \<rparr>"

text \<open>
  The hook itself. Its first argument is the value of \<open>this.isModified('plan')\<close>, which
  the persistence library computes: true for a document whose \<open>plan\<close> was assigned a new
  value since it was loaded (and for a new document), false otherwise.
\<close>

definition pre_save :: "bool \<Rightarrow> subscription \<Rightarrow> subscription" where
  "pre_save isModified_plan this =
     (if isModified_plan then this\<lparr> features := planFeatures (plan this) \<rparr> else this)"

section \<open>Dynamic feature lookup\<close>

text \<open>
  Indexing an object with a string that is not one of its own keys walks the prototype
  chain. What is found there is a function or an object; nothing is found for most
  names. \<open>InheritedFunction\<close> also stands for any other inherited value whose \<open>typeof\<close>
  is not \<open>'object'\<close>.
\<close>

datatype inherited = InheritedFunction | InheritedObject

text \<open>
  The chain of an object literal is \<open>Object.prototype\<close>: \<open>__proto__\<close> yields that
  prototype object itself, the other names yield its methods.
\<close>

definition object_prototype :: "string \<Rightarrow> inherited option" where
  "object_prototype name =
     (if name = ''__proto__'' then Some InheritedObject
      else if name \<in> set [''constructor'', ''hasOwnProperty'', ''isPrototypeOf'',
                ''propertyIsEnumerable'', ''toLocaleString'', ''toString'', ''valueOf'',
                ''__defineGetter__'', ''__defineSetter__'', ''__lookupGetter__'',
                ''__lookupSetter__'']
      then Some InheritedFunction
      else None)"

text \<open>
  \<open>this.features[featureName]\<close> indexes the features object of a stored document. The
  value is one of the declared shapes or a boolean for a key of the interface. For any
  other name it is what the prototype chain of that object yields, the argument \<open>proto\<close>:
  the chain is built by the persistence library and ends in \<open>Object.prototype\<close>. An
  inherited object has none of the properties \<open>enabled\<close>, \<open>monthlyLimit\<close> and \<open>used\<close>.
\<close>

datatype feature_value =
    MonthlyV monthly_feature
  | WeeklyV weekly_feature
  | CapacityV capacity_feature
  | RateV rate_feature
  | BoolV bool
  | InheritedV inherited
  | Undefined

definition features_get ::
  "(string \<Rightarrow> inherited option) \<Rightarrow> features \<Rightarrow> string \<Rightarrow> feature_value" where
  "features_get proto fs featureName =
     (if featureName = ''resumeAnalysis'' then MonthlyV (resumeAnalysis fs)
      else if featureName = ''interviews'' then MonthlyV (interviews fs)
      else if featureName = ''jobMatches'' then WeeklyV (jobMatches fs)
      else if featureName = ''roadmaps'' then CapacityV (roadmaps fs)
      else if featureName = ''linkedInReview'' then MonthlyV (linkedInReview fs)
      else if featureName = ''apiAccess'' then RateV (apiAccess fs)
      else if featureName = ''prioritySupport'' then BoolV (prioritySupport fs)
      else if featureName = ''customBranding'' then BoolV (customBranding fs)
      else (case proto featureName of
              None \<Rightarrow> Undefined
            | Some v \<Rightarrow> InheritedV v))"

text \<open>\<open>typeof feature === 'object' && feature !== null\<close>\<close>

fun is_object :: "feature_value \<Rightarrow> bool" where
  "is_object (BoolV b) = False"
| "is_object Undefined = False"
| "is_object (InheritedV InheritedFunction) = False"
| "is_object v = True"

text \<open>
  \<open>'enabled' in feature\<close> with \<open>feature.enabled\<close>, \<open>'monthlyLimit' in feature\<close> with
  \<open>feature.monthlyLimit\<close>, \<open>'used' in feature\<close> with \<open>feature.used\<close>: \<open>None\<close> when the
  property is absent. They are applied to object values only.
\<close>

fun enabled_in :: "feature_value \<Rightarrow> bool option" where
  "enabled_in (MonthlyV f) = Some (enabled f)"
| "enabled_in (WeeklyV f) = Some (enabled f)"
| "enabled_in (CapacityV f) = Some (enabled f)"
| "enabled_in (RateV f) = Some (enabled f)"
| "enabled_in v = None"

fun monthlyLimit_in :: "feature_value \<Rightarrow> int option" where
  "monthlyLimit_in (MonthlyV f) = Some (monthlyLimit f)"
| "monthlyLimit_in v = None"

fun used_in :: "feature_value \<Rightarrow> int option" where
  "used_in (MonthlyV f) = Some (used f)"
| "used_in (WeeklyV f) = Some (used f)"
| "used_in v = None"

section \<open>Subscription methods\<close>

text \<open>\<open>SubscriptionSchema.methods.checkUsageLimit\<close>\<close>

definition checkUsageLimit ::
  "(string \<Rightarrow> inherited option) \<Rightarrow> subscription \<Rightarrow> string \<Rightarrow> bool" where
  "checkUsageLimit proto this featureName =
     (let feature = features_get proto (features this) featureName in
      if is_object feature then
        (case monthlyLimit_in feature of
           Some lim \<Rightarrow>
             (case used_in feature of
                Some usd \<Rightarrow> lim = - 1 \<or> usd < lim
              | None \<Rightarrow> lim = - 1)
         | None \<Rightarrow> True)
      else True)"


section \<open>Errors and the stored collections\<close>

text \<open>
  \<open>ApiError\<close> (utils/apiResponse.ts) carries a message and an HTTP status code; its
  factories fix the code. An exception thrown by the payment provider's client is a
  \<open>ProviderError\<close>.
\<close>

datatype error = ApiError string nat | ProviderError string

definition notFound :: "string \<Rightarrow> error" where
  "notFound msg = ApiError msg 404"

text \<open>
  The two collections. \<open>Subscription.findById\<close>, \<open>Subscription.findOne({ userId })\<close> and
  \<open>Subscription.findOne({ userId, status: 'active' })\<close> return the first stored document
  that matches; saving a loaded document replaces the stored document with its id, after
  the pre-save hook has run.
\<close>

record db =
  subscriptions :: "subscription list"
  users :: "oid \<rightharpoonup> user"

definition Subscription_findById :: "oid \<Rightarrow> db \<Rightarrow> subscription option" where
  "Subscription_findById i d = find (\<lambda>s. doc_id s = i) (subscriptions d)"

definition Subscription_findOne :: "oid \<Rightarrow> db \<Rightarrow> subscription option" where
  "Subscription_findOne uid d = find (\<lambda>s. userId s = uid) (subscriptions d)"

definition Subscription_findOne_active :: "oid \<Rightarrow> db \<Rightarrow> subscription option" where
  "Subscription_findOne_active uid d =
     find (\<lambda>s. userId s = uid \<and> status s = Active) (subscriptions d)"

definition User_findById :: "oid \<Rightarrow> db \<Rightarrow> user option" where
  "User_findById uid d = users d uid"

definition replace_doc :: "subscription \<Rightarrow> subscription \<Rightarrow> subscription" where
  "replace_doc s t = (if doc_id t = doc_id s then s else t)"

definition subscription_save :: "bool \<Rightarrow> subscription \<Rightarrow> db \<Rightarrow> subscription \<times> db" where
  "subscription_save isModified_plan s d =
     (let s' = pre_save isModified_plan s
      in (s', d\<lparr> subscriptions := map (replace_doc s') (subscriptions d) \<rparr>))"

definition user_save :: "oid \<Rightarrow> user \<Rightarrow> db \<Rightarrow> db" where
  "user_save uid u d = d\<lparr> users := (users d)(uid \<mapsto> u) \<rparr>"

section \<open>User methods\<close>

definition hasProAccess :: "user \<Rightarrow> bool" where
  "hasProAccess this =
     (role this = RPro \<or> role this = RAdmin \<or>
      (us_status (subscription this) = UActive \<and> us_plan (subscription this) = Pro))"

text \<open>
  \<open>canUseResumeAnalysis\<close> reads the clock (\<open>new Date()\<close>, the argument \<open>now\<close>) and may
  assign to \<open>this.usage\<close>; the user it returns is the document after the call.
\<close>

definition canUseResumeAnalysis :: "jsdate \<Rightarrow> user \<Rightarrow> bool \<times> user" where
  "canUseResumeAnalysis now this =
     (if hasProAccess this then (True, this)
      else
        let lastReset = lastResetDate (usage this);
            monthDiff = getMonth now - getMonth lastReset
                        + (getFullYear now - getFullYear lastReset) * 12;
            this' = (if monthDiff > 0
                     then this\<lparr> usage := (usage this)\<lparr> resumeAnalysisCount := 0,
                                                       lastResetDate := now \<rparr> \<rparr>
                     else this)
        in (resumeAnalysisCount (usage this') < 3, this'))"

definition canUseInterview :: "user \<Rightarrow> bool" where
  "canUseInterview this =
     (if hasProAccess this then True else interviewSessionsCount (usage this) < 1)"

section \<open>SubscriptionService\<close>

subsection \<open>activateSubscription\<close>

text \<open>
  The loaded document gets \<open>status\<close> and \<open>paymentDetails.stripeSubscriptionId\<close> assigned and
  is saved; \<open>plan\<close> is not assigned, so the hook sees \<open>isModified('plan')\<close> false.
\<close>

definition activateSubscription ::
  "oid \<Rightarrow> string \<Rightarrow> db \<Rightarrow> error + (subscription \<times> db)" where
  "activateSubscription subscriptionId stripeSubId d =
     (case Subscription_findById subscriptionId d of
        None \<Rightarrow> Inl (notFound ''Subscription not found'')
      | Some sub \<Rightarrow>
          let (sub', d1) = subscription_save False
                 (sub\<lparr> status := Active,
                       paymentDetails := (paymentDetails sub)
                          \<lparr> stripeSubscriptionId := Some stripeSubId \<rparr> \<rparr>) d;
              d2 = (case User_findById (userId sub') d1 of
                      None \<Rightarrow> d1
                    | Some u \<Rightarrow>
                        user_save (userId sub')
                          (u\<lparr> role := RPro,
                              subscription := (subscription u)
                                \<lparr> us_status := UActive,
                                  us_plan := plan sub',
                                  us_startDate := Some (startDate sub'),
                                  us_endDate := Some (endDate sub'),
                                  us_stripeSubscriptionId := Some stripeSubId \<rparr> \<rparr>) d1)
          in Inr (sub', d2))"

subsection \<open>cancelSubscription\<close>

text \<open>
  \<open>cancelStripeSubscription\<close> calls the payment provider; its outcome is the argument
  \<open>stripeCancel\<close> (\<open>None\<close>: the call returned, \<open>Some e\<close>: it threw \<open>e\<close>). The call is made
  only for a truthy id, that is a non-empty string. \<open>now\<close> is \<open>new Date()\<close>.
\<close>

definition cancelInStripe :: "(string \<Rightarrow> error option) \<Rightarrow> subscription \<Rightarrow> error option" where
  "cancelInStripe stripeCancel sub =
     (case stripeSubscriptionId (paymentDetails sub) of
        None \<Rightarrow> None
      | Some i \<Rightarrow> if i = [] then None else stripeCancel i)"

definition cancelSubscription ::
  "(string \<Rightarrow> error option) \<Rightarrow> jsdate \<Rightarrow> oid \<Rightarrow> string option \<Rightarrow> string option \<Rightarrow> db
     \<Rightarrow> error + (subscription \<times> db)" where
  "cancelSubscription stripeCancel now uid rsn fb d =
     (case Subscription_findOne_active uid d of
        None \<Rightarrow> Inl (notFound ''No active subscription found'')
      | Some sub \<Rightarrow>
          (case cancelInStripe stripeCancel sub of
             Some e \<Rightarrow> Inl e
           | None \<Rightarrow>
               let (sub', d1) = subscription_save False
                      (sub\<lparr> status := Cancelled,
                            cancellation := Some \<lparr> cancelledAt = now, reason = rsn,
                                                   feedback = fb \<rparr> \<rparr>) d;
                   d2 = (case User_findById uid d1 of
                           None \<Rightarrow> d1
                         | Some u \<Rightarrow>
                             user_save uid
                               (u\<lparr> role := RFree,
                                   subscription := (subscription u)
                                     \<lparr> us_status := UCancelled \<rparr> \<rparr>) d1)
               in Inr (sub', d2)))"

subsection \<open>checkFeatureAccess\<close>

text \<open>
  The \<open>limit\<close> of a result is a number, or a value inherited through the prototype chain
  of the table \<open>freeLimits\<close>.
\<close>

datatype limit_value = Num int | InheritedLimit inherited

record access_result =
  hasAccess :: bool
  limit :: "limit_value option"
  usedReported :: "int option"
  message :: "string option"

text \<open>
  The local table \<open>freeLimits\<close>, an object literal indexed with the feature name; \<open>None\<close>
  is \<open>undefined\<close>.
\<close>

definition freeLimits :: "string \<Rightarrow> limit_value option" where
  "freeLimits featureName =
     (if featureName = ''resumeAnalysis'' then Some (Num 3)
      else if featureName = ''interviews'' then Some (Num 1)
      else if featureName = ''jobMatches'' then Some (Num 0)
      else if featureName = ''linkedInReview'' then Some (Num 1)
      else if featureName = ''roadmaps'' then Some (Num 1)
      else map_option InheritedLimit (object_prototype featureName))"

text \<open>\<open>freeLimits[featureName] || 0\<close>: a function or an object is truthy.\<close>

fun limit_or_zero :: "limit_value option \<Rightarrow> limit_value" where
  "limit_or_zero None = Num 0"
| "limit_or_zero (Some (Num n)) = (if n = 0 then Num 0 else Num n)"
| "limit_or_zero (Some (InheritedLimit v)) = InheritedLimit v"

text \<open>
  \<open>used < limit\<close> and \<open>used >= limit\<close> for a number \<open>used\<close>: a function or an object
  converts to NaN, and every comparison with NaN is false.
\<close>

fun less_limit :: "int \<Rightarrow> limit_value \<Rightarrow> bool" where
  "less_limit usd (Num lim) = (usd < lim)"
| "less_limit usd (InheritedLimit v) = False"

fun geq_limit :: "int \<Rightarrow> limit_value \<Rightarrow> bool" where
  "geq_limit usd (Num lim) = (usd \<ge> lim)"
| "geq_limit usd (InheritedLimit v) = False"

text \<open>
  \<open>user.usage[key]\<close> for a key built as \<open>`${featureName}Count`\<close>: the two counters are the
  only properties of \<open>usage\<close> whose name ends that way, own or inherited.
\<close>

definition usage_get :: "usage \<Rightarrow> string \<Rightarrow> int option" where
  "usage_get u key =
     (if key = ''resumeAnalysisCount'' then Some (resumeAnalysisCount u)
      else if key = ''interviewSessionsCount'' then Some (interviewSessionsCount u)
      else None)"

text \<open>\<open>v || 0\<close> for a number or \<open>undefined\<close>.\<close>

definition or_zero :: "int option \<Rightarrow> int" where
  "or_zero v = (case v of None \<Rightarrow> 0 | Some n \<Rightarrow> if n = 0 then 0 else n)"

definition checkFeatureAccess ::
  "(string \<Rightarrow> inherited option) \<Rightarrow> oid \<Rightarrow> string \<Rightarrow> db \<Rightarrow> error + access_result" where
  "checkFeatureAccess proto uid featureName d =
     (case Subscription_findOne uid d of
        None \<Rightarrow>
          let usd = or_zero (case User_findById uid d of
                               None \<Rightarrow> None
                             | Some u \<Rightarrow> usage_get (usage u) (featureName @ ''Count''));
              lim = limit_or_zero (freeLimits featureName)
          in Inr \<lparr> hasAccess = less_limit usd lim,
                   limit = Some lim,
                   usedReported = Some usd,
                   message = (if geq_limit usd lim
                              then Some ''Free tier limit reached. Upgrade to Pro.''
                              else None) \<rparr>
      | Some sub \<Rightarrow>
          let feature = features_get proto (features sub) featureName in
          if \<not> is_object feature then
            Inr \<lparr> hasAccess = False, limit = None, usedReported = None,
                  message = Some ''Feature not available'' \<rparr>
          else if enabled_in feature \<noteq> Some True then
            Inr \<lparr> hasAccess = False, limit = None, usedReported = None,
                  message = Some ''Feature not enabled for your plan'' \<rparr>
          else
            let lim = (case monthlyLimit_in feature of Some l \<Rightarrow> l | None \<Rightarrow> - 1);
                usd = (case used_in feature of Some n \<Rightarrow> n | None \<Rightarrow> 0)
            in if lim = - 1 then
                 Inr \<lparr> hasAccess = True, limit = Some (Num (- 1)), usedReported = Some usd,
                       message = None \<rparr>
               else
                 Inr \<lparr> hasAccess = usd < lim,
                       limit = Some (Num lim),
                       usedReported = Some usd,
                       message = (if usd \<ge> lim
                                  then Some ''Monthly limit reached. Upgrade your plan.''
                                  else None) \<rparr>)"

subsection \<open>incrementUsage and incrementFeatureUsage\<close>

text \<open>
  \<open>feature.used += 1\<close> on the feature that \<open>featureName\<close> names, and
  \<open>user.usage[usageField] += 1\<close>; both are reached only for a name that has the counter.
\<close>

definition features_increment :: "features \<Rightarrow> string \<Rightarrow> features" where
  "features_increment fs featureName =
     (if featureName = ''resumeAnalysis''
        then fs\<lparr> resumeAnalysis := (resumeAnalysis fs)\<lparr> used := used (resumeAnalysis fs) + 1 \<rparr> \<rparr>
      else if featureName = ''interviews''
        then fs\<lparr> interviews := (interviews fs)\<lparr> used := used (interviews fs) + 1 \<rparr> \<rparr>
      else if featureName = ''jobMatches''
        then fs\<lparr> jobMatches := (jobMatches fs)\<lparr> used := used (jobMatches fs) + 1 \<rparr> \<rparr>
      else if featureName = ''linkedInReview''
        then fs\<lparr> linkedInReview := (linkedInReview fs)\<lparr> used := used (linkedInReview fs) + 1 \<rparr> \<rparr>
      else fs)"

definition usage_increment :: "usage \<Rightarrow> string \<Rightarrow> usage" where
  "usage_increment u key =
     (if key = ''resumeAnalysisCount''
        then u\<lparr> resumeAnalysisCount := resumeAnalysisCount u + 1 \<rparr>
      else if key = ''interviewSessionsCount''
        then u\<lparr> interviewSessionsCount := interviewSessionsCount u + 1 \<rparr>
      else u)"

text \<open>
  \<open>SubscriptionSchema.methods.incrementUsage\<close>: the document is saved only when the
  feature is an object with a \<open>used\<close> property; \<open>plan\<close> is not assigned.
\<close>

definition incrementUsage ::
  "(string \<Rightarrow> inherited option) \<Rightarrow> subscription \<Rightarrow> string \<Rightarrow> db \<Rightarrow> subscription \<times> db" where
  "incrementUsage proto this featureName d =
     (let feature = features_get proto (features this) featureName in
      if is_object feature \<and> used_in feature \<noteq> None then
        subscription_save False
          (this\<lparr> features := features_increment (features this) featureName \<rparr>) d
      else (this, d))"

text \<open>\<open>SubscriptionService.incrementFeatureUsage\<close>; it returns nothing and throws nothing.\<close>

definition incrementFeatureUsage ::
  "(string \<Rightarrow> inherited option) \<Rightarrow> oid \<Rightarrow> string \<Rightarrow> db \<Rightarrow> db" where
  "incrementFeatureUsage proto uid featureName d =
     (case Subscription_findOne uid d of
        Some sub \<Rightarrow> snd (incrementUsage proto sub featureName d)
      | None \<Rightarrow>
          (case User_findById uid d of
             None \<Rightarrow> d
           | Some u \<Rightarrow>
               let usageField = featureName @ ''Count'' in
               if usage_get (usage u) usageField \<noteq> None then
                 user_save uid (u\<lparr> usage := usage_increment (usage u) usageField \<rparr>) d
               else d))"

subsection \<open>Two requests for the same feature\<close>

text \<open>
  A request checks the feature and, when access is granted, records the use. Each of
  the two calls is one indivisible step on the stored data; between the steps of one
  request the other request may take steps. A request ends as \<open>Finished True\<close> when it
  was granted access and has recorded its use, as \<open>Finished False\<close> when it was denied.
\<close>

datatype progress = ToCheck | ToIncrement | Finished bool

fun request_step ::
  "(string \<Rightarrow> inherited option) \<Rightarrow> oid \<Rightarrow> string \<Rightarrow> progress \<times> db \<Rightarrow> progress \<times> db" where
  "request_step proto uid featureName (ToCheck, d) =
     (case checkFeatureAccess proto uid featureName d of
        Inl e \<Rightarrow> (Finished False, d)
      | Inr r \<Rightarrow> if hasAccess r then (ToIncrement, d) else (Finished False, d))"
| "request_step proto uid featureName (ToIncrement, d) =
     (Finished True, incrementFeatureUsage proto uid featureName d)"
| "request_step proto uid featureName (Finished b, d) = (Finished b, d)"

text \<open>A schedule names, step by step, the request that moves.\<close>

datatype request = First | Second

fun run_schedule ::
  "(string \<Rightarrow> inherited option) \<Rightarrow> oid \<Rightarrow> string \<Rightarrow> request list
     \<Rightarrow> progress \<times> progress \<times> db \<Rightarrow> progress \<times> progress \<times> db" where
  "run_schedule proto uid featureName [] c = c"
| "run_schedule proto uid featureName (First # rs) (p1, p2, d) =
     (case request_step proto uid featureName (p1, d) of
        (p1', d') \<Rightarrow> run_schedule proto uid featureName rs (p1', p2, d'))"
| "run_schedule proto uid featureName (Second # rs) (p1, p2, d) =
     (case request_step proto uid featureName (p2, d) of
        (p2', d') \<Rightarrow> run_schedule proto uid featureName rs (p1, p2', d'))"

subsection \<open>handleWebhookEvent\<close>

text \<open>
  The fields of the provider's event that the handler reads: \<open>event.type\<close>,
  \<open>event.data.object.metadata.subscriptionId\<close>, \<open>event.data.object.subscription\<close> and
  \<open>event.data.object.id\<close>. Writing to the log is not modelled.
\<close>

record webhook_event =
  event_type :: string
  metadata_subscriptionId :: oid
  object_subscription :: string
  object_id :: string

definition handleWebhookEvent :: "webhook_event \<Rightarrow> db \<Rightarrow> error + db" where
  "handleWebhookEvent event d =
     (if event_type event = ''checkout.session.completed'' then
        (case activateSubscription (metadata_subscriptionId event)
                (object_subscription event) d of
           Inl e \<Rightarrow> Inl e
         | Inr (sub, d') \<Rightarrow> Inr d')
      else if event_type event = ''invoice.payment_succeeded'' then Inr d
      else if event_type event = ''invoice.payment_failed'' then Inr d
      else if event_type event = ''customer.subscription.deleted'' then Inr d
      else Inr d)"


text \<open>
  The stored data on which the two requests meet: document ids are unique, and user
  \<open>uid\<close> has a subscription whose feature \<open>featureName\<close> carries a monthly limit and is
  the record \<open>m\<close>.
\<close>

definition holds_monthly ::
  "(string \<Rightarrow> inherited option) \<Rightarrow> oid \<Rightarrow> string \<Rightarrow> monthly_feature \<Rightarrow> db \<Rightarrow> bool" where
  "holds_monthly proto uid featureName m d =
     (distinct (map doc_id (subscriptions d)) \<and>
      (case Subscription_findOne uid d of
         None \<Rightarrow> False
       | Some sub \<Rightarrow> features_get proto (features sub) featureName = MonthlyV m))"

section \<open>Feature names and concrete states\<close>

text \<open>The keys of \<open>ISubscription.features\<close>.\<close>

definition catalog_features :: "string list" where
  "catalog_features = [''resumeAnalysis'', ''interviews'', ''jobMatches'', ''roadmaps'',
     ''linkedInReview'', ''apiAccess'', ''prioritySupport'', ''customBranding'']"

text \<open>
  Stored documents on which the functions are evaluated below: a subscription of user 7
  with the features of its plan, a user with given role and counters, and a database
  holding some subscriptions and user 7.
\<close>

definition day :: "int \<Rightarrow> int \<Rightarrow> int \<Rightarrow> jsdate" where
  "day y m dd = \<lparr> getFullYear = y, getMonth = m, getDate = dd \<rparr>"

definition no_payment :: payment_details where
  "no_payment = \<lparr> stripeCustomerId = None, stripeSubscriptionId = None, stripePriceId = None,
                   razorpaySubscriptionId = None, razorpayCustomerId = None \<rparr>"

definition stored_subscription :: "oid \<Rightarrow> oid \<Rightarrow> plan \<Rightarrow> sub_status \<Rightarrow> subscription" where
  "stored_subscription i uid p st =
     \<lparr> doc_id = i, userId = uid, plan = p, status = st, billingCycle = Monthly, price = 29,
       currency = ''USD'', startDate = day 2024 0 15, endDate = day 2024 1 15,
       trialEndsAt = None, paymentProvider = Stripe, paymentDetails = no_payment,
       features = planFeatures p, cancellation = None, renewals = [] \<rparr>"

definition stored_user :: "role \<Rightarrow> int \<Rightarrow> int \<Rightarrow> jsdate \<Rightarrow> user" where
  "stored_user r n m lastReset =
     \<lparr> role = r,
       subscription = \<lparr> us_status = UNone, us_plan = Free, us_startDate = None,
                        us_endDate = None, us_stripeCustomerId = None,
                        us_stripeSubscriptionId = None \<rparr>,
       usage = \<lparr> resumeAnalysisCount = n, interviewSessionsCount = m,
                 lastResetDate = lastReset \<rparr> \<rparr>"

definition example_db :: "subscription list \<Rightarrow> user \<Rightarrow> db" where
  "example_db subs u = \<lparr> subscriptions = subs, users = [7 \<mapsto> u] \<rparr>"

text \<open>An active pro subscription in use: 5 resume analyses, 10 job matches this week.\<close>

definition pro_used_up :: subscription where
  "pro_used_up = (stored_subscription 1 7 Pro Active)
     \<lparr> features := (planFeatures Pro)
         \<lparr> resumeAnalysis := \<lparr> enabled = True, used = 5, monthlyLimit = - 1 \<rparr>,
           jobMatches := \<lparr> enabled = True, used = 10, weeklyLimit = 10 \<rparr> \<rparr> \<rparr>"

text \<open>A free-plan subscription (one interview per month) with \<open>n\<close> interviews used.\<close>

definition free_interviews_used :: "int \<Rightarrow> subscription" where
  "free_interviews_used n = (stored_subscription 1 7 Free Active)
     \<lparr> features := (planFeatures Free)
         \<lparr> interviews := \<lparr> enabled = True, used = n, monthlyLimit = 1 \<rparr> \<rparr> \<rparr>"

text \<open>A free-plan subscription whose interviews are capped at 0.\<close>

definition free_no_interviews :: subscription where
  "free_no_interviews = (stored_subscription 1 7 Free Active)
     \<lparr> features := (planFeatures Free)
         \<lparr> interviews := \<lparr> enabled = True, used = 0, monthlyLimit = 0 \<rparr> \<rparr> \<rparr>"

text \<open>
  A pending pro subscription after its checkout has completed with provider reference
  \<open>sub_X\<close>, and its user after the same activation.
\<close>

definition activated_subscription :: subscription where
  "activated_subscription = (stored_subscription 1 7 Pro Pending)
     \<lparr> status := Active,
       paymentDetails := no_payment\<lparr> stripeSubscriptionId := Some ''sub_X'' \<rparr> \<rparr>"

definition activated_user :: user where
  "activated_user = (stored_user RFree 2 0 (day 2024 0 15))
     \<lparr> role := RPro,
       subscription := \<lparr> us_status = UActive, us_plan = Pro,
                          us_startDate = Some (day 2024 0 15),
                          us_endDate = Some (day 2024 1 15),
                          us_stripeCustomerId = None,
                          us_stripeSubscriptionId = Some ''sub_X'' \<rparr> \<rparr>"

definition stripe_event :: "string \<Rightarrow> webhook_event" where
  "stripe_event ty = \<lparr> event_type = ty, metadata_subscriptionId = 1,
                        object_subscription = ''sub_X'', object_id = ''obj_1'' \<rparr>"

section \<open>Auxiliary facts\<close>

lemmas fixture_defs = day_def no_payment_def stored_subscription_def stored_user_def
  example_db_def pro_used_up_def free_no_interviews_def free_interviews_used_def

lemmas db_defs = Subscription_findById_def Subscription_findOne_def
  Subscription_findOne_active_def User_findById_def subscription_save_def user_save_def
  pre_save_def replace_doc_def Let_def

lemmas check_defs = checkFeatureAccess_def features_get_def freeLimits_def usage_get_def
  or_zero_def object_prototype_def

lemma find_holds: "find P xs = Some x \<Longrightarrow> P x"
  by (induction xs) (auto split: if_splits)

text \<open>After a save, looking the document up by its id returns the saved document.\<close>

lemma find_replace_doc:
  "find (\<lambda>t. doc_id t = i) xs = Some s \<Longrightarrow> doc_id s' = i \<Longrightarrow>
   find (\<lambda>t. doc_id t = i) (map (replace_doc s') xs) = Some s'"
  by (induction xs) (auto simp: replace_doc_def split: if_splits)

lemma find_replace_doc_mem:
  "s \<in> set xs \<Longrightarrow> doc_id s' = doc_id s \<Longrightarrow>
   find (\<lambda>t. doc_id t = doc_id s) (map (replace_doc s') xs) = Some s'"
  by (induction xs) (auto simp: replace_doc_def)

text \<open>Saving the same document twice stores what saving it once stores.\<close>

lemma replace_doc_twice: "replace_doc s \<circ> replace_doc s = replace_doc s"
  by (rule ext) (simp add: replace_doc_def)

text \<open>
  Saving a document keeps every id, and the user's subscription is found again.
\<close>

lemma find_mem: "find P xs = Some x \<Longrightarrow> x \<in> set xs"
  by (induction xs) (auto split: if_splits)

lemma doc_id_replace_doc: "doc_id (replace_doc s t) = doc_id t"
  by (simp add: replace_doc_def)

lemma find_user_replace_doc:
  "find (\<lambda>s. userId s = uid) xs = Some sub \<Longrightarrow> distinct (map doc_id xs) \<Longrightarrow>
   userId sub' = uid \<Longrightarrow> doc_id sub' = doc_id sub \<Longrightarrow>
   find (\<lambda>s. userId s = uid) (map (replace_doc sub') xs) = Some sub'"
proof (induction xs)
  case Nil
  then show ?case by simp
next
  case (Cons x xs)
  show ?case
  proof (cases "userId x = uid")
    case True
    with Cons.prems show ?thesis by (simp add: replace_doc_def)
  next
    case False
    with Cons.prems have f: "find (\<lambda>s. userId s = uid) xs = Some sub" by simp
    then have "sub \<in> set xs" by (rule find_mem)
    with Cons.prems have "doc_id x \<noteq> doc_id sub'" by auto
    with False Cons.IH [OF f] Cons.prems show ?thesis by (simp add: replace_doc_def)
  qed
qed

text \<open>The two steps of a request on a feature with a monthly limit.\<close>

lemma features_get_increment:
  "features_get proto fs f = MonthlyV m \<Longrightarrow>
   features_get proto (features_increment fs f) f = MonthlyV (m\<lparr> used := used m + 1 \<rparr>)"
  by (auto simp: features_get_def features_increment_def split: if_splits option.splits)

lemma check_step_monthly:
  assumes "holds_monthly proto uid f m d" and "enabled m"
  shows "request_step proto uid f (ToCheck, d)
           = (if monthlyLimit m = - 1 \<or> used m < monthlyLimit m then ToIncrement
              else Finished False, d)"
  using assms
  by (auto simp: holds_monthly_def checkFeatureAccess_def Let_def split: option.splits)

lemma increment_step_monthly:
  assumes "holds_monthly proto uid f m d"
  shows "holds_monthly proto uid f (m\<lparr> used := used m + 1 \<rparr>) (incrementFeatureUsage proto uid f d)"
proof -
  from assms obtain sub where s: "Subscription_findOne uid d = Some sub"
    and g: "features_get proto (features sub) f = MonthlyV m"
    and dist: "distinct (map doc_id (subscriptions d))"
    by (auto simp: holds_monthly_def split: option.splits)
  define sub' where "sub' = sub\<lparr> features := features_increment (features sub) f \<rparr>"
  have u: "userId sub = uid"
    using s find_holds [of "\<lambda>s. userId s = uid" "subscriptions d" sub]
    by (simp add: Subscription_findOne_def)
  have d': "incrementFeatureUsage proto uid f d
              = d\<lparr> subscriptions := map (replace_doc sub') (subscriptions d) \<rparr>"
    using s g
    by (simp add: incrementFeatureUsage_def incrementUsage_def subscription_save_def
        pre_save_def sub'_def Let_def)
  have f: "find (\<lambda>s. userId s = uid) (map (replace_doc sub') (subscriptions d)) = Some sub'"
    using s dist u by (intro find_user_replace_doc) (simp_all add: Subscription_findOne_def sub'_def)
  show ?thesis
    using f dist g
    by (simp add: holds_monthly_def d' Subscription_findOne_def comp_def doc_id_replace_doc
        sub'_def features_get_increment)
qed

section \<open>Plan swap (C1)\<close>

text \<open>
  C1, as the specification states it: a plan swap recomputes the features from the plan
  table and keeps the \<open>used\<close> counters. The hook assigns the table's entry, whose counters
  are 0: on the active pro subscription \<open>pro_used_up\<close> (5 resume analyses, 10 job matches
  used) a swap to enterprise leaves both counters at 0.
\<close>

theorem plan_swap_resets_used_counterexample:
  "status pro_used_up = Active \<and> plan pro_used_up = Pro
   \<and> used (resumeAnalysis (features pro_used_up)) = 5
   \<and> used (resumeAnalysis (features (pre_save True (pro_used_up\<lparr> plan := Enterprise \<rparr>)))) = 0
   \<and> used (jobMatches (features pro_used_up)) = 10
   \<and> used (jobMatches (features (pre_save True (pro_used_up\<lparr> plan := Enterprise \<rparr>)))) = 0"
  by (simp add: fixture_defs pre_save_def)

text \<open>
  C1, amended: when a subscription whose plan was changed to \<open>p\<close> is saved (the hook sees
  \<open>isModified('plan')\<close> true), its features become exactly the plan table's entry for \<open>p\<close>,
  so the \<open>used\<close> counter of every counted feature is 0 afterwards.
\<close>

theorem plan_swap_features_from_catalog:
  "features (pre_save True (s\<lparr> plan := p \<rparr>)) = planFeatures p
   \<and> used (resumeAnalysis (features (pre_save True (s\<lparr> plan := p \<rparr>)))) = 0
   \<and> used (interviews (features (pre_save True (s\<lparr> plan := p \<rparr>)))) = 0
   \<and> used (jobMatches (features (pre_save True (s\<lparr> plan := p \<rparr>)))) = 0
   \<and> used (linkedInReview (features (pre_save True (s\<lparr> plan := p \<rparr>)))) = 0"
  by (cases p) (simp_all add: pre_save_def)

section \<open>Weekly limit (C2)\<close>

text \<open>
  C2: with \<open>jobMatches\<close> enabled, \<open>weeklyLimit = 10\<close> and \<open>used = 10\<close> the specification
  expects \<open>hasAccess = false\<close>. \<open>checkFeatureAccess\<close> reads \<open>monthlyLimit\<close> only; a feature
  without that property gets the limit -1, so the check grants access and reports the
  feature as unlimited. \<open>checkUsageLimit\<close> answers true for the same reason.
\<close>

theorem weekly_limit_not_enforced:
  "enabled (jobMatches (features pro_used_up))
   \<and> weeklyLimit (jobMatches (features pro_used_up)) = 10
   \<and> used (jobMatches (features pro_used_up)) = 10
   \<and> checkFeatureAccess object_prototype 7 ''jobMatches''
        (example_db [pro_used_up] (stored_user RPro 0 0 (day 2024 0 15)))
       = Inr \<lparr> hasAccess = True, limit = Some (Num (- 1)), usedReported = Some 10, message = None \<rparr>
   \<and> checkUsageLimit object_prototype pro_used_up ''jobMatches''"
  by (simp add: fixture_defs db_defs check_defs checkUsageLimit_def)


section \<open>Webhook events (C3)\<close>

text \<open>
  C3, as the specification states it: every invoice event appends a renewal record. On
  the activated subscription both invoice events return the database as it was; its
  list of renewals is still empty.
\<close>

theorem webhook_invoice_events_counterexample:
  "renewals activated_subscription = []
   \<and> handleWebhookEvent (stripe_event ''invoice.payment_succeeded'')
      (example_db [activated_subscription] activated_user)
     = Inr (example_db [activated_subscription] activated_user)
   \<and> handleWebhookEvent (stripe_event ''invoice.payment_failed'')
      (example_db [activated_subscription] activated_user)
     = Inr (example_db [activated_subscription] activated_user)"
  by (simp add: handleWebhookEvent_def stripe_event_def activated_subscription_def
      stored_subscription_def)

text \<open>
  C3, amended: \<open>checkout.session.completed\<close> activates the subscription that the session's
  metadata names, whatever its status was (the stored document becomes active and
  carries the provider's subscription reference), and fails with the not-found error
  when no subscription has that id; \<open>invoice.payment_succeeded\<close> and
  \<open>invoice.payment_failed\<close> change nothing in the database.
\<close>

theorem handleWebhookEvent_effect:
  "(event_type ev = ''checkout.session.completed''
      \<and> Subscription_findById (metadata_subscriptionId ev) d = Some sub \<longrightarrow>
      (\<exists>d'. handleWebhookEvent ev d = Inr d'
         \<and> Subscription_findById (metadata_subscriptionId ev) d'
             = Some (sub\<lparr> status := Active,
                          paymentDetails := (paymentDetails sub)
                            \<lparr> stripeSubscriptionId := Some (object_subscription ev) \<rparr> \<rparr>)))
   \<and> (event_type ev = ''checkout.session.completed''
      \<and> Subscription_findById (metadata_subscriptionId ev) d = None \<longrightarrow>
      handleWebhookEvent ev d = Inl (ApiError ''Subscription not found'' 404))
   \<and> (event_type ev = ''invoice.payment_succeeded'' \<or> event_type ev = ''invoice.payment_failed''
      \<longrightarrow> handleWebhookEvent ev d = Inr d)"
proof (intro conjI impI)
  assume a: "event_type ev = ''checkout.session.completed''
      \<and> Subscription_findById (metadata_subscriptionId ev) d = Some sub"
  have i: "doc_id sub = metadata_subscriptionId ev"
    using a find_holds [of "\<lambda>s. doc_id s = metadata_subscriptionId ev" "subscriptions d" sub]
    by (simp add: Subscription_findById_def)
  show "\<exists>d'. handleWebhookEvent ev d = Inr d'
         \<and> Subscription_findById (metadata_subscriptionId ev) d'
             = Some (sub\<lparr> status := Active,
                          paymentDetails := (paymentDetails sub)
                            \<lparr> stripeSubscriptionId := Some (object_subscription ev) \<rparr> \<rparr>)"
    using a i
    by (auto simp: handleWebhookEvent_def activateSubscription_def subscription_save_def
        pre_save_def User_findById_def user_save_def Subscription_findById_def
        find_replace_doc Let_def split: option.splits)
next
  assume "event_type ev = ''checkout.session.completed''
      \<and> Subscription_findById (metadata_subscriptionId ev) d = None"
  then show "handleWebhookEvent ev d = Inl (ApiError ''Subscription not found'' 404)"
    by (simp add: handleWebhookEvent_def activateSubscription_def notFound_def)
next
  assume "event_type ev = ''invoice.payment_succeeded'' \<or> event_type ev = ''invoice.payment_failed''"
  then show "handleWebhookEvent ev d = Inr d"
    by (auto simp: handleWebhookEvent_def)
qed

theorem handleWebhookEvent_effect_witness:
  "(\<exists>d'. handleWebhookEvent (stripe_event ''checkout.session.completed'')
            (example_db [stored_subscription 1 7 Pro Pending]
               (stored_user RFree 2 0 (day 2024 0 15))) = Inr d'
        \<and> Subscription_findById 1 d' = Some activated_subscription)
   \<and> handleWebhookEvent (stripe_event ''checkout.session.completed'')
        (example_db [] (stored_user RFree 2 0 (day 2024 0 15)))
      = Inl (ApiError ''Subscription not found'' 404)
   \<and> handleWebhookEvent (stripe_event ''invoice.payment_succeeded'')
        (example_db [activated_subscription] activated_user)
      = Inr (example_db [activated_subscription] activated_user)
   \<and> handleWebhookEvent (stripe_event ''invoice.payment_failed'')
        (example_db [activated_subscription] activated_user)
      = Inr (example_db [activated_subscription] activated_user)"
  using handleWebhookEvent_effect [where ev = "stripe_event ''checkout.session.completed''"
          and d = "example_db [stored_subscription 1 7 Pro Pending]
                     (stored_user RFree 2 0 (day 2024 0 15))"
          and sub = "stored_subscription 1 7 Pro Pending"]
        handleWebhookEvent_effect [where ev = "stripe_event ''checkout.session.completed''"
          and d = "example_db [] (stored_user RFree 2 0 (day 2024 0 15))"]
        handleWebhookEvent_effect [where ev = "stripe_event ''invoice.payment_succeeded''"
          and d = "example_db [activated_subscription] activated_user"]
        handleWebhookEvent_effect [where ev = "stripe_event ''invoice.payment_failed''"
          and d = "example_db [activated_subscription] activated_user"]
  by (simp add: stripe_event_def activated_subscription_def fixture_defs db_defs)

section \<open>Two concurrent requests (C4)\<close>

text \<open>
  C4, as the specification states it: with limit 1 and nothing used, two concurrent
  check-then-increment sequences never both succeed. On a free-plan subscription
  (\<open>interviews\<close>: monthly limit 1, used 0) the schedule in which both requests check before
  either records its use ends with both requests successful and the counter at 2.
\<close>

theorem concurrent_requests_counterexample:
  "monthlyLimit (interviews (features (free_interviews_used 0))) = 1
   \<and> used (interviews (features (free_interviews_used 0))) = 0
   \<and> run_schedule object_prototype 7 ''interviews'' [First, Second, First, Second]
        (ToCheck, ToCheck,
         example_db [free_interviews_used 0] (stored_user RFree 0 0 (day 2024 0 15)))
     = (Finished True, Finished True,
        example_db [free_interviews_used 2] (stored_user RFree 0 0 (day 2024 0 15)))"
  by (simp add: fixture_defs db_defs check_defs incrementFeatureUsage_def incrementUsage_def
      features_increment_def)

text \<open>
  C4, amended: for a user whose subscription has an enabled feature with monthly limit
  1 and nothing used, two check-then-increment sequences that run one after the other,
  in either order, end with exactly one success and one denial and the counter at 1.
  The check and the increment are separate steps: when both checks run before either
  increment, both sequences succeed and the counter ends at 2.
\<close>

theorem check_then_increment_schedules:
  assumes "holds_monthly proto uid f m d"
      and "enabled m" and "monthlyLimit m = 1" and "used m = 0"
  shows "(\<exists>d'. run_schedule proto uid f [First, First, Second, Second] (ToCheck, ToCheck, d)
                 = (Finished True, Finished False, d')
              \<and> holds_monthly proto uid f (m\<lparr> used := 1 \<rparr>) d')
       \<and> (\<exists>d'. run_schedule proto uid f [Second, Second, First, First] (ToCheck, ToCheck, d)
                 = (Finished False, Finished True, d')
              \<and> holds_monthly proto uid f (m\<lparr> used := 1 \<rparr>) d')
       \<and> (\<exists>d'. run_schedule proto uid f [First, Second, First, Second] (ToCheck, ToCheck, d)
                 = (Finished True, Finished True, d')
              \<and> holds_monthly proto uid f (m\<lparr> used := 2 \<rparr>) d')"
proof -
  let ?d1 = "incrementFeatureUsage proto uid f d"
  let ?d2 = "incrementFeatureUsage proto uid f ?d1"
  have c0: "request_step proto uid f (ToCheck, d) = (ToIncrement, d)"
    using check_step_monthly [OF assms(1,2)] assms(3,4) by simp
  have h1: "holds_monthly proto uid f (m\<lparr> used := 1 \<rparr>) ?d1"
    using increment_step_monthly [OF assms(1)] assms(4) by simp
  have c1: "request_step proto uid f (ToCheck, ?d1) = (Finished False, ?d1)"
    using check_step_monthly [OF h1] assms(2,3) by simp
  have h2: "holds_monthly proto uid f (m\<lparr> used := 2 \<rparr>) ?d2"
    using increment_step_monthly [OF h1] by simp
  show ?thesis
    using c0 c1 h1 h2 by simp
qed


theorem check_then_increment_schedules_witness:
  "(\<exists>d'. run_schedule object_prototype 7 ''interviews'' [First, First, Second, Second]
            (ToCheck, ToCheck,
             example_db [free_interviews_used 0] (stored_user RFree 0 0 (day 2024 0 15)))
           = (Finished True, Finished False, d')
        \<and> holds_monthly object_prototype 7 ''interviews''
             \<lparr> enabled = True, used = 1, monthlyLimit = 1 \<rparr> d')
   \<and> (\<exists>d'. run_schedule object_prototype 7 ''interviews'' [Second, Second, First, First]
            (ToCheck, ToCheck,
             example_db [free_interviews_used 0] (stored_user RFree 0 0 (day 2024 0 15)))
           = (Finished False, Finished True, d')
        \<and> holds_monthly object_prototype 7 ''interviews''
             \<lparr> enabled = True, used = 1, monthlyLimit = 1 \<rparr> d')
   \<and> (\<exists>d'. run_schedule object_prototype 7 ''interviews'' [First, Second, First, Second]
            (ToCheck, ToCheck,
             example_db [free_interviews_used 0] (stored_user RFree 0 0 (day 2024 0 15)))
           = (Finished True, Finished True, d')
        \<and> holds_monthly object_prototype 7 ''interviews''
             \<lparr> enabled = True, used = 2, monthlyLimit = 1 \<rparr> d')"
proof -
  have h: "holds_monthly object_prototype 7 ''interviews''
             \<lparr> enabled = True, used = 0, monthlyLimit = 1 \<rparr>
             (example_db [free_interviews_used 0] (stored_user RFree 0 0 (day 2024 0 15)))"
    by (simp add: holds_monthly_def fixture_defs db_defs features_get_def)
  show ?thesis
    using check_then_increment_schedules [OF h] by simp
qed

section \<open>Free-tier monthly reset (C5)\<close>

text \<open>
  C5: a user without subscription has used 3 resume analyses, last reset on 15 January
  2024. The specification expects the check of \<open>resumeAnalysis\<close> in March to reset the
  counter and to grant access with \<open>used = 0\<close>. \<open>checkFeatureAccess\<close> reads neither the
  clock nor \<open>lastResetDate\<close>: whatever the date, it denies with \<open>used = 3\<close>. The method
  \<open>canUseResumeAnalysis\<close> of the same user, called on 10 March 2024, does reset and grant.
\<close>

theorem free_check_no_monthly_reset:
  "checkFeatureAccess object_prototype 7 ''resumeAnalysis'' (example_db [] (stored_user RFree 3 0 (day 2024 0 15)))
     = Inr \<lparr> hasAccess = False, limit = Some (Num 3), usedReported = Some 3,
             message = Some ''Free tier limit reached. Upgrade to Pro.'' \<rparr>
   \<and> canUseResumeAnalysis (day 2024 2 10) (stored_user RFree 3 0 (day 2024 0 15))
     = (True, stored_user RFree 0 0 (day 2024 2 10))"
  by (simp add: fixture_defs db_defs check_defs canUseResumeAnalysis_def hasProAccess_def)

section \<open>Cancellation (C6)\<close>

text \<open>
  C6, as the specification states it: cancelling a subscription that is not active
  fails with an invalid-state error. For a pending subscription the code fails with the
  not-found error (status code 404) of its query for an active subscription.
\<close>

theorem cancel_pending_counterexample:
  "status (stored_subscription 1 7 Pro Pending) = Pending
   \<and> cancelSubscription (\<lambda>i. None) (day 2024 2 10) 7 None None
        (example_db [stored_subscription 1 7 Pro Pending] (stored_user RFree 0 0 (day 2024 0 15)))
     = Inl (ApiError ''No active subscription found'' 404)"
  by (simp add: fixture_defs db_defs cancelSubscription_def notFound_def)

text \<open>
  C6, amended: when the user has no active subscription, \<open>cancelSubscription\<close> fails with
  the not-found error and no write happens. When the user has an active subscription,
  the provider-side cancellation does not throw and the user document exists, it
  succeeds: the stored subscription is cancelled and carries the cancellation record,
  its features (with every \<open>used\<close> counter) are as before, and the user has role free,
  subscription status cancelled and unchanged usage counters.
\<close>

theorem cancelSubscription_effect:
  "(Subscription_findOne_active uid d = None \<longrightarrow>
      cancelSubscription stripeCancel now uid rsn fb d
        = Inl (ApiError ''No active subscription found'' 404))
   \<and> (Subscription_findOne_active uid d = Some sub \<and> cancelInStripe stripeCancel sub = None
        \<and> User_findById uid d = Some u \<longrightarrow>
      (\<exists>sub' d'. cancelSubscription stripeCancel now uid rsn fb d = Inr (sub', d')
         \<and> Subscription_findById (doc_id sub) d' = Some sub'
         \<and> status sub' = Cancelled
         \<and> cancellation sub' = Some \<lparr> cancelledAt = now, reason = rsn, feedback = fb \<rparr>
         \<and> features sub' = features sub
         \<and> (\<exists>u'. User_findById uid d' = Some u' \<and> role u' = RFree
                  \<and> us_status (subscription u') = UCancelled \<and> usage u' = usage u)))"
proof (intro conjI impI)
  assume "Subscription_findOne_active uid d = None"
  then show "cancelSubscription stripeCancel now uid rsn fb d
        = Inl (ApiError ''No active subscription found'' 404)"
    by (simp add: cancelSubscription_def notFound_def)
next
  assume a: "Subscription_findOne_active uid d = Some sub \<and> cancelInStripe stripeCancel sub = None
        \<and> User_findById uid d = Some u"
  define sub' where "sub' = sub\<lparr> status := Cancelled,
      cancellation := Some \<lparr> cancelledAt = now, reason = rsn, feedback = fb \<rparr> \<rparr>"
  have m: "sub \<in> set (subscriptions d)"
    using a by (auto simp: Subscription_findOne_active_def find_Some_iff)
  have f: "find (\<lambda>t. doc_id t = doc_id sub) (map (replace_doc sub') (subscriptions d)) = Some sub'"
    using m by (intro find_replace_doc_mem) (simp_all add: sub'_def)
  show "\<exists>sub' d'. cancelSubscription stripeCancel now uid rsn fb d = Inr (sub', d')
         \<and> Subscription_findById (doc_id sub) d' = Some sub'
         \<and> status sub' = Cancelled
         \<and> cancellation sub' = Some \<lparr> cancelledAt = now, reason = rsn, feedback = fb \<rparr>
         \<and> features sub' = features sub
         \<and> (\<exists>u'. User_findById uid d' = Some u' \<and> role u' = RFree
                  \<and> us_status (subscription u') = UCancelled \<and> usage u' = usage u)"
    using a f
    by (simp add: cancelSubscription_def subscription_save_def pre_save_def User_findById_def
        user_save_def Subscription_findById_def sub'_def Let_def)
qed

theorem cancelSubscription_effect_witness:
  "cancelSubscription (\<lambda>i. None) (day 2024 2 10) 7 None None
        (example_db [stored_subscription 1 7 Pro Pending] (stored_user RFree 0 0 (day 2024 0 15)))
     = Inl (ApiError ''No active subscription found'' 404)
   \<and> (\<exists>sub' d'. cancelSubscription (\<lambda>i. None) (day 2024 2 10) 7 (Some ''price'') None
                    (example_db [pro_used_up] (stored_user RPro 0 0 (day 2024 0 15)))
                  = Inr (sub', d')
         \<and> Subscription_findById 1 d' = Some sub'
         \<and> status sub' = Cancelled
         \<and> cancellation sub' = Some \<lparr> cancelledAt = day 2024 2 10, reason = Some ''price'',
                                       feedback = None \<rparr>
         \<and> features sub' = features pro_used_up
         \<and> (\<exists>u'. User_findById 7 d' = Some u' \<and> role u' = RFree
                  \<and> us_status (subscription u') = UCancelled
                  \<and> usage u' = usage (stored_user RPro 0 0 (day 2024 0 15))))"
  using cancelSubscription_effect [where uid = 7 and stripeCancel = "\<lambda>i. None"
          and now = "day 2024 2 10" and rsn = None and fb = None
          and d = "example_db [stored_subscription 1 7 Pro Pending]
                     (stored_user RFree 0 0 (day 2024 0 15))"]
        cancelSubscription_effect [where uid = 7 and stripeCancel = "\<lambda>i. None"
          and now = "day 2024 2 10" and rsn = "Some ''price''" and fb = None
          and d = "example_db [pro_used_up] (stored_user RPro 0 0 (day 2024 0 15))"
          and sub = pro_used_up and u = "stored_user RPro 0 0 (day 2024 0 15)"]
  by (simp add: fixture_defs db_defs cancelInStripe_def)


section \<open>Activation is idempotent (C7)\<close>

text \<open>
  C7: if \<open>activateSubscription\<close> succeeds, calling it again with the same subscription id
  and the same payment reference on the resulting database succeeds with the same
  subscription and leaves the database (every subscription with its features and \<open>used\<close>
  counters, every user) as the first call left it; the subscription is active.
\<close>

theorem activateSubscription_idempotent:
  assumes "activateSubscription sid ref d = Inr (sub1, d1)"
  shows "activateSubscription sid ref d1 = Inr (sub1, d1) \<and> status sub1 = Active"
proof -
  from assms obtain sub where f: "Subscription_findById sid d = Some sub"
    by (auto simp: activateSubscription_def split: option.splits)
  have i: "doc_id sub = sid"
    using f find_holds [of "\<lambda>s. doc_id s = sid" "subscriptions d" sub]
    by (simp add: Subscription_findById_def)
  show ?thesis
    using assms f i
    by (auto simp: activateSubscription_def subscription_save_def pre_save_def
        User_findById_def user_save_def Subscription_findById_def find_replace_doc
        replace_doc_twice Let_def split: option.splits)
qed

theorem activateSubscription_idempotent_witness:
  "activateSubscription 1 ''sub_X''
      (example_db [stored_subscription 1 7 Pro Pending] (stored_user RFree 2 0 (day 2024 0 15)))
     = Inr (activated_subscription, example_db [activated_subscription] activated_user)
   \<and> activateSubscription 1 ''sub_X'' (example_db [activated_subscription] activated_user)
     = Inr (activated_subscription, example_db [activated_subscription] activated_user)
   \<and> status activated_subscription = Active"
proof -
  have h: "activateSubscription 1 ''sub_X''
      (example_db [stored_subscription 1 7 Pro Pending] (stored_user RFree 2 0 (day 2024 0 15)))
     = Inr (activated_subscription, example_db [activated_subscription] activated_user)"
    by (simp add: activateSubscription_def fixture_defs db_defs activated_subscription_def
        activated_user_def)
  show ?thesis
    using h activateSubscription_idempotent [OF h] by simp
qed

section \<open>Unknown feature names (C8)\<close>

text \<open>
  C8, as the specification states it: resolving a feature name outside the catalog
  fails with an error. For the name \<open>teleport\<close> the check returns a result, a denial,
  both for a user without subscription and for a user with one.
\<close>

theorem unknown_feature_counterexample:
  "checkFeatureAccess object_prototype 7 ''teleport''
        (example_db [] (stored_user RFree 0 0 (day 2024 0 15)))
     = Inr \<lparr> hasAccess = False, limit = Some (Num 0), usedReported = Some 0,
             message = Some ''Free tier limit reached. Upgrade to Pro.'' \<rparr>
   \<and> checkFeatureAccess object_prototype 7 ''teleport''
        (example_db [stored_subscription 1 7 Pro Active] (stored_user RPro 0 0 (day 2024 0 15)))
     = Inr \<lparr> hasAccess = False, limit = None, usedReported = None,
             message = Some ''Feature not available'' \<rparr>"
  by (simp add: fixture_defs db_defs check_defs)

text \<open>
  C8, amended: for a feature name that is not a key of the features structure the check
  raises nothing and denies. With a subscription record the result has no limit and no
  usage; its message is "Feature not enabled for your plan" when the name yields an
  object inherited through the prototype chain, and "Feature not available" otherwise.
  Without a subscription record (and with a stored interview counter that is not
  negative) the result has limit 0 and the free-tier message, unless the name is
  inherited from \<open>Object.prototype\<close>: then the limit is that inherited value and there is
  no message.
\<close>

theorem unknown_feature_denied:
  assumes "f \<notin> set catalog_features"
  shows "(\<forall>sub. Subscription_findOne uid d = Some sub \<longrightarrow>
            checkFeatureAccess proto uid f d
              = Inr \<lparr> hasAccess = False, limit = None, usedReported = None,
                      message = Some (if proto f = Some InheritedObject
                                      then ''Feature not enabled for your plan''
                                      else ''Feature not available'') \<rparr>)
       \<and> (Subscription_findOne uid d = None
            \<and> (\<forall>u. User_findById uid d = Some u \<longrightarrow> 0 \<le> interviewSessionsCount (usage u)) \<longrightarrow>
            (\<exists>n. checkFeatureAccess proto uid f d
              = Inr \<lparr> hasAccess = False,
                      limit = Some (case object_prototype f of
                                      None \<Rightarrow> Num 0
                                    | Some v \<Rightarrow> InheritedLimit v),
                      usedReported = Some n,
                      message = (if object_prototype f = None
                                 then Some ''Free tier limit reached. Upgrade to Pro.''
                                 else None) \<rparr>))"
proof (intro conjI allI impI)
  fix sub
  assume s: "Subscription_findOne uid d = Some sub"
  have g: "features_get proto (features sub) f
             = (case proto f of None \<Rightarrow> Undefined | Some v \<Rightarrow> InheritedV v)"
    using assms by (simp add: catalog_features_def features_get_def)
  show "checkFeatureAccess proto uid f d
              = Inr \<lparr> hasAccess = False, limit = None, usedReported = None,
                      message = Some (if proto f = Some InheritedObject
                                      then ''Feature not enabled for your plan''
                                      else ''Feature not available'') \<rparr>"
  proof (cases "proto f")
    case None
    then show ?thesis using s g by (simp add: checkFeatureAccess_def)
  next
    case (Some v)
    then show ?thesis using s g by (cases v) (simp_all add: checkFeatureAccess_def)
  qed
next
  assume a: "Subscription_findOne uid d = None
            \<and> (\<forall>u. User_findById uid d = Some u \<longrightarrow> 0 \<le> interviewSessionsCount (usage u))"
  have l: "freeLimits f = map_option InheritedLimit (object_prototype f)"
    using assms by (simp add: catalog_features_def freeLimits_def)
  have u: "0 \<le> or_zero (case User_findById uid d of
                            None \<Rightarrow> None
                          | Some u \<Rightarrow> usage_get (usage u) (f @ ''Count''))"
    using assms a
    by (auto simp: catalog_features_def usage_get_def or_zero_def split: option.splits)
  show "\<exists>n. checkFeatureAccess proto uid f d
              = Inr \<lparr> hasAccess = False,
                      limit = Some (case object_prototype f of
                                      None \<Rightarrow> Num 0
                                    | Some v \<Rightarrow> InheritedLimit v),
                      usedReported = Some n,
                      message = (if object_prototype f = None
                                 then Some ''Free tier limit reached. Upgrade to Pro.''
                                 else None) \<rparr>"
    using a l u
    by (cases "object_prototype f") (auto simp: checkFeatureAccess_def Let_def)
qed

theorem unknown_feature_denied_witness:
  "checkFeatureAccess object_prototype 7 ''teleport''
        (example_db [stored_subscription 1 7 Pro Active] (stored_user RPro 0 0 (day 2024 0 15)))
     = Inr \<lparr> hasAccess = False, limit = None, usedReported = None,
             message = Some ''Feature not available'' \<rparr>
   \<and> checkFeatureAccess object_prototype 7 ''__proto__''
        (example_db [stored_subscription 1 7 Pro Active] (stored_user RPro 0 0 (day 2024 0 15)))
     = Inr \<lparr> hasAccess = False, limit = None, usedReported = None,
             message = Some ''Feature not enabled for your plan'' \<rparr>
   \<and> (\<exists>n. checkFeatureAccess object_prototype 7 ''interviewSessions''
              (example_db [] (stored_user RFree 0 4 (day 2024 0 15)))
     = Inr \<lparr> hasAccess = False, limit = Some (Num 0), usedReported = Some n,
             message = Some ''Free tier limit reached. Upgrade to Pro.'' \<rparr>)
   \<and> (\<exists>n. checkFeatureAccess object_prototype 7 ''constructor''
              (example_db [] (stored_user RFree 0 4 (day 2024 0 15)))
     = Inr \<lparr> hasAccess = False, limit = Some (InheritedLimit InheritedFunction),
             usedReported = Some n, message = None \<rparr>)"
  using unknown_feature_denied [of "''teleport''" 7
          "example_db [stored_subscription 1 7 Pro Active] (stored_user RPro 0 0 (day 2024 0 15))"
          object_prototype]
        unknown_feature_denied [of "''__proto__''" 7
          "example_db [stored_subscription 1 7 Pro Active] (stored_user RPro 0 0 (day 2024 0 15))"
          object_prototype]
        unknown_feature_denied [of "''interviewSessions''" 7
          "example_db [] (stored_user RFree 0 4 (day 2024 0 15))" object_prototype]
        unknown_feature_denied [of "''constructor''" 7
          "example_db [] (stored_user RFree 0 4 (day 2024 0 15))" object_prototype]
  by (simp add: catalog_features_def fixture_defs db_defs object_prototype_def)

section \<open>The within-limit check (C9)\<close>

text \<open>
  On a feature that carries \<open>monthlyLimit\<close>, \<open>checkUsageLimit\<close> compares as specified:
  true iff \<open>used < limit\<close> for \<open>limit \<ge> 0\<close>, and true for the limit -1.
\<close>

lemma checkUsageLimit_monthly:
  assumes "features_get proto (features s) f = MonthlyV m"
  shows "checkUsageLimit proto s f = (monthlyLimit m = - 1 \<or> used m < monthlyLimit m)"
  using assms by (auto simp: checkUsageLimit_def)

text \<open>
  C9: the specification expects the within-limit check to return true iff
  \<open>used < limit\<close> for every limit that is not negative, so never at limit 0.
  \<open>checkUsageLimit\<close> compares only when the feature has a \<open>monthlyLimit\<close>. For
  \<open>jobMatches\<close>, whose limit is \<open>weeklyLimit\<close>, it returns true without comparing: on the
  free plan (limit 0, used 0), and on \<open>pro_used_up\<close> (limit 10, used 10). With the same
  numbers as a monthly limit it returns false.
\<close>

theorem checkUsageLimit_skips_weekly_limit:
  "weeklyLimit (jobMatches (features (stored_subscription 1 7 Free Active))) = 0
   \<and> used (jobMatches (features (stored_subscription 1 7 Free Active))) = 0
   \<and> checkUsageLimit object_prototype (stored_subscription 1 7 Free Active) ''jobMatches''
   \<and> weeklyLimit (jobMatches (features pro_used_up)) = 10
   \<and> used (jobMatches (features pro_used_up)) = 10
   \<and> checkUsageLimit object_prototype pro_used_up ''jobMatches''
   \<and> monthlyLimit (interviews (features free_no_interviews)) = 0
   \<and> used (interviews (features free_no_interviews)) = 0
   \<and> \<not> checkUsageLimit object_prototype free_no_interviews ''interviews''"
  by (simp add: fixture_defs checkUsageLimit_def features_get_def)

section \<open>Free-tier usage counters (C10)\<close>

text \<open>
  C10: for a user without subscription the specification expects the check of
  \<open>interviews\<close> to report the stored \<open>interviewSessionsCount\<close> and to deny once it has
  reached the free limit 1. The code reads the property \<open>interviewsCount\<close>, which
  \<open>usage\<close> does not have: with one interview session used it reports \<open>used = 0\<close> and
  grants access, while \<open>canUseInterview\<close> denies the same user.
\<close>

theorem free_interviews_counter_ignored:
  "checkFeatureAccess object_prototype 7 ''interviews'' (example_db [] (stored_user RFree 0 1 (day 2024 0 15)))
     = Inr \<lparr> hasAccess = True, limit = Some (Num 1), usedReported = Some 0, message = None \<rparr>
   \<and> \<not> canUseInterview (stored_user RFree 0 1 (day 2024 0 15))"
  by (simp add: fixture_defs db_defs check_defs canUseInterview_def hasProAccess_def)

end
